theory Spec2Isabelle
  imports Main "HOL-Library.Word"
begin

unbundle bit_operations_syntax

section \<open>Data model (types/rfid.types.ts)\<close>

text \<open>
  The elements of a \<open>Uint8Array\<close> are 8-bit words. JavaScript numbers that the code only
  uses as integers are \<open>int\<close> (or \<open>nat\<close> where they are lengths and offsets), strings are
  \<open>string\<close>. The optional fields of \<open>UHFTagInfo\<close> are options.
\<close>

type_synonym byte = "8 word"

record UHFTagInfo =
  epc :: string
  rssi :: string
  count :: int
  tid :: "string option"
  user :: "string option"
  pc :: "string option"
  ant :: "string option"
  timestamp :: int

datatype ConnectionStatus = Disconnected | Connecting | Connected | Error

section \<open>The service state (services/chainway-r6.service.ts)\<close>

text \<open>
  Transport objects (device, GATT server, characteristic) and registered callbacks are
  referred to by handles. What an operation does to the outside world is recorded as a
  list of effects, in the order the code performs them: a call of the registered status
  callback, a call of the registered tag callback, a call of \<open>writeValue\<close> on a
  characteristic (recorded whether the returned promise resolves or rejects), and a call
  of \<open>gatt.disconnect()\<close>. Console output is not recorded.
\<close>

type_synonym handle = nat
type_synonym callback = nat

datatype effect =
    StatusChanged callback ConnectionStatus
  | TagRead callback UHFTagInfo
  | WriteValue handle "byte list"
  | GattDisconnect handle

record ChainwayR6Service =
  device :: "handle option"
  server :: "handle option"
  characteristic :: "handle option"
  tagReadCallback :: "callback option"
  connectionStatusCallback :: "callback option"
  isInventoryRunning :: bool

definition chainwayR6Service :: ChainwayR6Service where
  "chainwayR6Service =
     \<lparr>device = None, server = None, characteristic = None,
      tagReadCallback = None, connectionStatusCallback = None,
      isInventoryRunning = False\<rparr>"

subsection \<open>JavaScript helpers used by the service\<close>

text \<open>\<open>data.slice(start, end)\<close> for \<open>0 \<le> start \<le> end\<close>: both ends are clamped to the length.\<close>

definition slice_list :: "'a list \<Rightarrow> nat \<Rightarrow> nat \<Rightarrow> 'a list" where
  "slice_list data start end = take (end - start) (drop start data)"

text \<open>\<open>data[i]\<close>: \<open>undefined\<close> (here \<open>None\<close>) at and beyond the length.\<close>

definition at_index :: "'a list \<Rightarrow> nat \<Rightarrow> 'a option" where
  "at_index data i = (if i < length data then Some (data ! i) else None)"

definition digit_char :: "nat \<Rightarrow> char" where
  "digit_char d = ''0123456789abcdefghijklmnopqrstuvwxyz'' ! d"

text \<open>\<open>n.toString(radix)\<close> for a non-negative integer: lower-case digits, no padding.\<close>

fun toString :: "nat \<Rightarrow> nat \<Rightarrow> string" where
  "toString radix n =
     (if n < radix \<or> radix < 2 then [digit_char n]
      else toString radix (n div radix) @ [digit_char (n mod radix)])"

declare toString.simps [simp del]

definition padStart :: "nat \<Rightarrow> char \<Rightarrow> string \<Rightarrow> string" where
  "padStart targetLength c s = replicate (targetLength - length s) c @ s"

definition upper_char :: "char \<Rightarrow> char" where
  "upper_char c =
     (if 97 \<le> (of_char c :: nat) \<and> (of_char c :: nat) \<le> 122
      then char_of ((of_char c :: nat) - 32) else c)"

definition toUpperCase :: "string \<Rightarrow> string" where
  "toUpperCase s = map upper_char s"

subsection \<open>Callbacks and cleanup\<close>

definition onTagRead :: "callback \<Rightarrow> ChainwayR6Service \<Rightarrow> ChainwayR6Service" where
  "onTagRead cb s = s\<lparr>tagReadCallback := Some cb\<rparr>"

definition onConnectionStatusChange :: "callback \<Rightarrow> ChainwayR6Service \<Rightarrow> ChainwayR6Service" where
  "onConnectionStatusChange cb s = s\<lparr>connectionStatusCallback := Some cb\<rparr>"

definition updateConnectionStatus :: "ConnectionStatus \<Rightarrow> ChainwayR6Service \<Rightarrow> effect list" where
  "updateConnectionStatus status s =
     (case connectionStatusCallback s of
        None \<Rightarrow> []
      | Some cb \<Rightarrow> [StatusChanged cb status])"

definition cleanup :: "ChainwayR6Service \<Rightarrow> ChainwayR6Service" where
  "cleanup s = s\<lparr>device := None, server := None, characteristic := None,
                 isInventoryRunning := False\<rparr>"

definition handleDisconnect :: "ChainwayR6Service \<Rightarrow> ChainwayR6Service \<times> effect list" where
  "handleDisconnect s =
     (let s' = cleanup s in (s', updateConnectionStatus Disconnected s'))"

text \<open>
  \<open>disconnect()\<close>: \<open>gatt_connected\<close> is what \<open>this.device.gatt?.connected\<close> evaluates to
  when a device is held (false also when the device has no \<open>gatt\<close>).
\<close>

definition disconnect :: "bool \<Rightarrow> ChainwayR6Service \<Rightarrow> ChainwayR6Service \<times> effect list" where
  "disconnect gatt_connected s =
     (let e1 = (case device s of
                  Some d \<Rightarrow> if gatt_connected then [GattDisconnect d] else []
                | None \<Rightarrow> []);
          s' = cleanup s
      in (s', e1 @ updateConnectionStatus Disconnected s'))"

subsection \<open>connect\<close>

text \<open>
  \<open>connect()\<close> awaits five transport calls in a row; each may reject, and the device may
  lack \<open>gatt\<close>. The outcome of the transport is a parameter: how far the sequence got and
  the handles it returned. Fields assigned before the failing step keep their new values,
  as in the code; the \<open>catch\<close> block reports \<open>error\<close> and rethrows.
\<close>

datatype connect_outcome =
    RequestDeviceRejected
  | GattMissing handle
  | GattConnectRejected handle
  | GetPrimaryServiceRejected handle handle
  | GetCharacteristicRejected handle handle
  | StartNotificationsRejected handle handle handle
  | ConnectResolved handle handle handle

datatype connect_error = GattNotSupported | TransportError

definition connect ::
  "connect_outcome \<Rightarrow> ChainwayR6Service \<Rightarrow> (connect_error + unit) \<times> ChainwayR6Service \<times> effect list"
where
  "connect outcome s =
     (let e0 = updateConnectionStatus Connecting s in
      case outcome of
        RequestDeviceRejected \<Rightarrow>
          (Inl TransportError, s, e0 @ updateConnectionStatus Error s)
      | GattMissing d \<Rightarrow>
          (let s1 = s\<lparr>device := Some d\<rparr>
           in (Inl GattNotSupported, s1, e0 @ updateConnectionStatus Error s1))
      | GattConnectRejected d \<Rightarrow>
          (let s1 = s\<lparr>device := Some d\<rparr>
           in (Inl TransportError, s1, e0 @ updateConnectionStatus Error s1))
      | GetPrimaryServiceRejected d sv \<Rightarrow>
          (let s2 = s\<lparr>device := Some d, server := Some sv\<rparr>
           in (Inl TransportError, s2, e0 @ updateConnectionStatus Error s2))
      | GetCharacteristicRejected d sv \<Rightarrow>
          (let s2 = s\<lparr>device := Some d, server := Some sv\<rparr>
           in (Inl TransportError, s2, e0 @ updateConnectionStatus Error s2))
      | StartNotificationsRejected d sv ch \<Rightarrow>
          (let s3 = s\<lparr>device := Some d, server := Some sv, characteristic := Some ch\<rparr>
           in (Inl TransportError, s3, e0 @ updateConnectionStatus Error s3))
      | ConnectResolved d sv ch \<Rightarrow>
          (let s3 = s\<lparr>device := Some d, server := Some sv, characteristic := Some ch\<rparr>
           in (Inr (), s3, e0 @ updateConnectionStatus Connected s3)))"

subsection \<open>Commands\<close>

text \<open>
  In each command \<open>write_ok\<close> says whether the promise of \<open>writeValue\<close> resolves
  (\<open>True\<close>) or rejects (\<open>False\<close>, caught by the \<open>catch\<close> block).
\<close>

definition startInventory_command :: "byte list" where
  "startInventory_command = [0xA0, 0x04, 0x01, 0x27, 0xCC]"

definition stopInventory_command :: "byte list" where
  "stopInventory_command = [0xA0, 0x04, 0x01, 0x28, 0xCD]"

definition getPower_command :: "byte list" where
  "getPower_command = [0xA0, 0x04, 0x01, 0xB7, 0x5C]"

definition startInventory :: "bool \<Rightarrow> ChainwayR6Service \<Rightarrow> bool \<times> ChainwayR6Service \<times> effect list" where
  "startInventory write_ok s =
     (case characteristic s of
        None \<Rightarrow> (False, s, [])
      | Some ch \<Rightarrow>
          if write_ok
          then (True, s\<lparr>isInventoryRunning := True\<rparr>, [WriteValue ch startInventory_command])
          else (False, s, [WriteValue ch startInventory_command]))"

definition stopInventory :: "bool \<Rightarrow> ChainwayR6Service \<Rightarrow> bool \<times> ChainwayR6Service \<times> effect list" where
  "stopInventory write_ok s =
     (case characteristic s of
        None \<Rightarrow> (False, s, [])
      | Some ch \<Rightarrow>
          if write_ok
          then (True, s\<lparr>isInventoryRunning := False\<rparr>, [WriteValue ch stopInventory_command])
          else (False, s, [WriteValue ch stopInventory_command]))"


text \<open>
  \<open>calculateChecksum\<close>: the loop adds the bytes from left to right into a number, then
  masks with \<open>0xFF\<close>.
\<close>

definition calculateChecksum :: "byte list \<Rightarrow> nat" where
  "calculateChecksum data = (fold (\<lambda>b sum. sum + unat b) data 0) AND 0xFF"

text \<open>
  \<open>setPower(power)\<close> for an integer \<open>power\<close> (written \<open>power'\<close> below). Storing an
  integer into a \<open>Uint8Array\<close> keeps it modulo 256, which is \<open>word_of_int\<close> and
  \<open>word_of_nat\<close>.
\<close>

definition setPower_command :: "int \<Rightarrow> byte list" where
  "setPower_command power' =
     (let command = [0xA0, 0x05, 0x01, 0xB6, word_of_int power', 0x00]
      in command[5 := word_of_nat (calculateChecksum (slice_list command 0 5))])"

definition setPower :: "int \<Rightarrow> bool \<Rightarrow> ChainwayR6Service \<Rightarrow> bool \<times> ChainwayR6Service \<times> effect list" where
  "setPower power' write_ok s =
     (case characteristic s of
        None \<Rightarrow> (False, s, [])
      | Some ch \<Rightarrow>
          if power' < 0 \<or> power' > 30 then (False, s, [])
          else if write_ok
          then (True, s, [WriteValue ch (setPower_command power')])
          else (False, s, [WriteValue ch (setPower_command power')]))"

subsection \<open>Inbound notifications\<close>

text \<open>
  \<open>parseTagData(data)\<close>, with \<open>now\<close> the value of \<open>Date.now()\<close>. Reads beyond the buffer do
  not throw in JavaScript: \<open>slice\<close> clamps and \<open>data[i]\<close> is \<open>undefined\<close>, which \<open>>>\<close> turns
  into 0. The only expression that can throw is \<open>rssi.toString()\<close> when \<open>data[5]\<close> is
  \<open>undefined\<close>; the \<open>catch\<close> block then returns \<open>null\<close>.
\<close>

definition byte_hex :: "byte \<Rightarrow> string" where
  "byte_hex b = padStart 2 (CHR ''0'') (toString 16 (unat b))"

definition parseTagData :: "int \<Rightarrow> byte list \<Rightarrow> UHFTagInfo option" where
  "parseTagData now data =
     (let offset = 5;
          rssi_byte = at_index data offset;
          offset = offset + 1;
          pc_str = concat (map byte_hex (slice_list data offset (offset + 2)));
          offset = offset + 2;
          epcLen = (case at_index data (offset - 2) of
                      None \<Rightarrow> 0
                    | Some b \<Rightarrow> unat ((drop_bit 3 b) AND 0x1F) * 2);
          epc_str = concat (map (\<lambda>b. toUpperCase (byte_hex b)) (slice_list data offset (offset + epcLen)))
      in case rssi_byte of
           None \<Rightarrow> None
         | Some r \<Rightarrow>
             Some \<lparr>epc = epc_str, rssi = toString 10 (unat r), count = 1,
                   tid = None, user = None, pc = Some pc_str, ant = None,
                   timestamp = now\<rparr>)"

text \<open>
  \<open>handleNotification(event)\<close>: \<open>val\<close> is \<open>event.target.value\<close> (\<open>None\<close> when it is
  missing), as the bytes of its buffer. \<open>notification_command\<close> is the part of the
  handler that recognises a frame: the guard \<open>data.length > 5 && data[0] === 0xA0\<close> and
  the read \<open>command = data[3]\<close>; \<open>None\<close> when the guard fails.
\<close>

definition notification_command :: "byte list \<Rightarrow> byte option" where
  "notification_command data =
     (if length data > 5 \<and> at_index data 0 = Some 0xA0 then Some (data ! 3) else None)"

definition handleNotification ::
  "int \<Rightarrow> byte list option \<Rightarrow> ChainwayR6Service \<Rightarrow> ChainwayR6Service \<times> effect list"
where
  "handleNotification now val s =
     (case val of
        None \<Rightarrow> (s, [])
      | Some data \<Rightarrow>
          (case notification_command data of
             None \<Rightarrow> (s, [])
           | Some command \<Rightarrow>
               if command = 0x22 \<or> command = 0x27 then
                 (case parseTagData now data of
                    None \<Rightarrow> (s, [])
                  | Some tag \<Rightarrow>
                      (case tagReadCallback s of
                         None \<Rightarrow> (s, [])
                       | Some cb \<Rightarrow> (s, [TagRead cb tag])))
               else (s, [])))"

section \<open>The tag collection of the component (components/RFIDReader.tsx)\<close>

record TagWithId = UHFTagInfo +
  id' :: string

text \<open>The state updater passed to \<open>setTags\<close> by the \<open>onTagRead\<close> handler.\<close>

definition withId :: "UHFTagInfo \<Rightarrow> int \<Rightarrow> TagWithId" where
  "withId tag c =
     \<lparr>epc = epc tag, rssi = rssi tag, count = c, tid = tid tag, user = user tag,
      pc = pc tag, ant = ant tag, timestamp = timestamp tag, id' = epc tag\<rparr>"

definition tagRead_update :: "UHFTagInfo \<Rightarrow> (string \<rightharpoonup> TagWithId) \<Rightarrow> (string \<rightharpoonup> TagWithId)" where
  "tagRead_update tag prevTags =
     (case prevTags (epc tag) of
        Some existingTag \<Rightarrow> prevTags(epc tag \<mapsto> withId tag (count existingTag + 1))
      | None \<Rightarrow> prevTags(epc tag \<mapsto> withId tag (count tag)))"

section \<open>Executions of the service\<close>

text \<open>
  The methods \<open>connect\<close>, \<open>startInventory\<close>, \<open>stopInventory\<close>, \<open>getPower\<close> and
  \<open>setPower\<close> are \<open>async\<close>: each runs up to an \<open>await\<close> of a transport promise, and
  the rest of its body runs when that promise settles. Between the two, other calls and
  transport events are handled. The definitions of the methods above give a call and the
  rest of its body together, with the settlement as a parameter; the definitions below
  give them apart, so that an execution is a list of calls, events and settlements in
  any order.

  A task is the rest of a method body that waits for a promise.
\<close>

datatype task =
    AwaitRequestDevice
  | AwaitGattConnect
  | AwaitPrimaryService
  | AwaitCharacteristic
  | AwaitStartNotifications
  | AwaitStartWrite
  | AwaitStopWrite
  | AwaitGetPowerWrite
  | AwaitSetPowerWrite

text \<open>
  How a promise settles: rejected, or resolved with a handle (which a promise without a
  value ignores). \<open>requestDevice\<close> may resolve with a device that has no \<open>gatt\<close>.
\<close>

datatype settlement = Rejected | Resolved handle | ResolvedWithoutGatt handle

definition settled_value :: "settlement \<Rightarrow> handle option" where
  "settled_value r =
     (case r of Rejected \<Rightarrow> None | Resolved h \<Rightarrow> Some h | ResolvedWithoutGatt h \<Rightarrow> Some h)"

text \<open>
  A session is the service together with the tasks that wait and the effects so far.
\<close>

record session =
  svc :: ChainwayR6Service
  tasks :: "task list"
  effects :: "effect list"

text \<open>
  \<open>resume t r s\<close> runs the rest of the method body after the awaited promise settled as
  \<open>r\<close>: the new state, the effects, and the next task when the body reaches another
  \<open>await\<close>. In \<open>connect\<close> a rejection, the missing \<open>gatt\<close>, and a null
  \<open>this.characteristic\<close> or \<open>this.device\<close> at \<open>addEventListener\<close> (a cleanup ran during
  the last \<open>await\<close>) all end in the \<open>catch\<close> block, which reports \<open>error\<close>. After a
  write the body of \<open>startInventory\<close> sets \<open>isInventoryRunning\<close> without testing the
  characteristic again.
\<close>

definition resume ::
  "task \<Rightarrow> settlement \<Rightarrow> ChainwayR6Service \<Rightarrow> ChainwayR6Service \<times> effect list \<times> task list"
where
  "resume t r s =
     (case t of
        AwaitRequestDevice \<Rightarrow>
          (case r of
             Rejected \<Rightarrow> (s, updateConnectionStatus Error s, [])
           | Resolved d \<Rightarrow> (s\<lparr>device := Some d\<rparr>, [], [AwaitGattConnect])
           | ResolvedWithoutGatt d \<Rightarrow>
               (s\<lparr>device := Some d\<rparr>, updateConnectionStatus Error s, []))
      | AwaitGattConnect \<Rightarrow>
          (case settled_value r of
             None \<Rightarrow> (s, updateConnectionStatus Error s, [])
           | Some sv \<Rightarrow> (s\<lparr>server := Some sv\<rparr>, [], [AwaitPrimaryService]))
      | AwaitPrimaryService \<Rightarrow>
          (case settled_value r of
             None \<Rightarrow> (s, updateConnectionStatus Error s, [])
           | Some _ \<Rightarrow> (s, [], [AwaitCharacteristic]))
      | AwaitCharacteristic \<Rightarrow>
          (case settled_value r of
             None \<Rightarrow> (s, updateConnectionStatus Error s, [])
           | Some ch \<Rightarrow> (s\<lparr>characteristic := Some ch\<rparr>, [], [AwaitStartNotifications]))
      | AwaitStartNotifications \<Rightarrow>
          (if settled_value r = None \<or> characteristic s = None \<or> device s = None
           then (s, updateConnectionStatus Error s, [])
           else (s, updateConnectionStatus Connected s, []))
      | AwaitStartWrite \<Rightarrow>
          (if settled_value r = None then (s, [], [])
           else (s\<lparr>isInventoryRunning := True\<rparr>, [], []))
      | AwaitStopWrite \<Rightarrow>
          (if settled_value r = None then (s, [], [])
           else (s\<lparr>isInventoryRunning := False\<rparr>, [], []))
      | AwaitGetPowerWrite \<Rightarrow> (s, [], [])
      | AwaitSetPowerWrite \<Rightarrow> (s, [], []))"

text \<open>
  The calls of the public methods, the two transport events the service listens to, and
  the settlement of the task at a position of the list of waiting tasks. \<open>call\<close> runs a
  method up to its first \<open>await\<close>, or to its end when it has none.
\<close>

datatype action =
    CallConnect
  | CallDisconnect bool
  | CallStartInventory
  | CallStopInventory
  | CallSetPower int
  | CallGetPower
  | CallOnTagRead callback
  | CallOnConnectionStatusChange callback
  | GattServerDisconnected
  | CharacteristicValueChanged int "byte list option"
  | Settle nat settlement

definition call :: "action \<Rightarrow> ChainwayR6Service \<Rightarrow> ChainwayR6Service \<times> effect list \<times> task list" where
  "call a s =
     (case a of
        CallConnect \<Rightarrow> (s, updateConnectionStatus Connecting s, [AwaitRequestDevice])
      | CallDisconnect gatt_connected \<Rightarrow>
          (fst (disconnect gatt_connected s), snd (disconnect gatt_connected s), [])
      | CallStartInventory \<Rightarrow>
          (case characteristic s of
             None \<Rightarrow> (s, [], [])
           | Some ch \<Rightarrow> (s, [WriteValue ch startInventory_command], [AwaitStartWrite]))
      | CallStopInventory \<Rightarrow>
          (case characteristic s of
             None \<Rightarrow> (s, [], [])
           | Some ch \<Rightarrow> (s, [WriteValue ch stopInventory_command], [AwaitStopWrite]))
      | CallSetPower p \<Rightarrow>
          (case characteristic s of
             None \<Rightarrow> (s, [], [])
           | Some ch \<Rightarrow>
               if p < 0 \<or> p > 30 then (s, [], [])
               else (s, [WriteValue ch (setPower_command p)], [AwaitSetPowerWrite]))
      | CallGetPower \<Rightarrow>
          (case characteristic s of
             None \<Rightarrow> (s, [], [])
           | Some ch \<Rightarrow> (s, [WriteValue ch getPower_command], [AwaitGetPowerWrite]))
      | CallOnTagRead cb \<Rightarrow> (onTagRead cb s, [], [])
      | CallOnConnectionStatusChange cb \<Rightarrow> (onConnectionStatusChange cb s, [], [])
      | GattServerDisconnected \<Rightarrow> (fst (handleDisconnect s), snd (handleDisconnect s), [])
      | CharacteristicValueChanged now val \<Rightarrow>
          (fst (handleNotification now val s), snd (handleNotification now val s), [])
      | Settle _ _ \<Rightarrow> (s, [], []))"

definition perform :: "action \<Rightarrow> session \<Rightarrow> session" where
  "perform a x =
     (case a of
        Settle i r \<Rightarrow>
          if i < length (tasks x) then
            (case resume (tasks x ! i) r (svc x) of
               (s', es, new) \<Rightarrow>
                 \<lparr>svc = s', tasks = take i (tasks x) @ drop (Suc i) (tasks x) @ new,
                  effects = effects x @ es\<rparr>)
          else x
      | _ \<Rightarrow>
          (case call a (svc x) of
             (s', es, new) \<Rightarrow>
               \<lparr>svc = s', tasks = tasks x @ new, effects = effects x @ es\<rparr>))"

fun execute :: "action list \<Rightarrow> session \<Rightarrow> session" where
  "execute [] x = x"
| "execute (a # as) x = execute as (perform a x)"









section \<open>Auxiliary facts\<close>

lemma and_255: "(n::nat) AND 0xFF = n mod 256"
proof -
  have "n AND mask 8 = take_bit 8 n" by (simp add: take_bit_eq_mask)
  then show ?thesis by (simp add: take_bit_eq_mod mask_eq_exp_minus_1)
qed

lemma fold_add_unat: "fold (\<lambda>b sum. sum + unat b) data a = a + sum_list (map unat data)"
  by (induction data arbitrary: a) simp_all

lemma calculateChecksum_sum_list:
  "calculateChecksum data = sum_list (map unat data) mod 256"
  by (simp add: calculateChecksum_def and_255 fold_add_unat)

lemma length_toString16:
  assumes "n < 256"
  shows "length (toString 16 n) = (if n < 16 then 1 else 2)"
proof (cases "n < 16")
  case True
  then show ?thesis by (simp add: toString.simps)
next
  case False
  with assms have "n div 16 < 16" by simp
  then have "toString 16 (n div 16) = [digit_char (n div 16)]"
    by (simp add: toString.simps)
  with False show ?thesis
    by (simp add: toString.simps [of 16 n])
qed

lemma length_byte_hex: "length (byte_hex b) = 2"
proof -
  have "unat b < 256" using unsigned_less [of b] by simp
  then show ?thesis
    by (simp add: byte_hex_def padStart_def length_toString16)
qed

lemma length_toUpperCase: "length (toUpperCase s) = length s"
  by (simp add: toUpperCase_def)

lemma length_concat_const:
  assumes "\<And>x. length (f x) = k"
  shows "length (concat (map f xs)) = k * length xs"
  using assms by (induction xs) simp_all

lemma length_slice_list: "length (slice_list data a b) = min (b - a) (length data - a)"
  by (simp add: slice_list_def)

lemma parseTagData_Some:
  assumes "5 < length data"
  shows "parseTagData now data =
     Some \<lparr>epc = concat (map (\<lambda>b. toUpperCase (byte_hex b))
                   (slice_list data 8 (8 + (case at_index data 6 of None \<Rightarrow> 0
                        | Some b \<Rightarrow> unat ((drop_bit 3 b) AND 0x1F) * 2)))),
           rssi = toString 10 (unat (data ! 5)), count = 1,
           tid = None, user = None,
           pc = Some (concat (map byte_hex (slice_list data 6 8))), ant = None,
           timestamp = now\<rparr>"
  using assms by (simp add: parseTagData_def at_index_def Let_def)

lemma parseTagData_None:
  assumes "length data \<le> 5"
  shows "parseTagData now data = None"
  using assms by (simp add: parseTagData_def at_index_def Let_def)

lemma length_epc_parse:
  assumes "8 \<le> length data" and "parseTagData now data = Some tag"
  shows "length (epc tag) =
           2 * min (unat ((drop_bit 3 (data ! 6)) AND 0x1F) * 2) (length data - 8)"
proof -
  from assms(1) have "5 < length data" by simp
  from parseTagData_Some [OF this, of now] assms(2)
  have "epc tag = concat (map (\<lambda>b. toUpperCase (byte_hex b))
                   (slice_list data 8 (8 + (case at_index data 6 of None \<Rightarrow> 0
                        | Some b \<Rightarrow> unat ((drop_bit 3 b) AND 0x1F) * 2))))"
    by simp
  moreover from assms(1) have "at_index data 6 = Some (data ! 6)"
    by (simp add: at_index_def)
  ultimately have "epc tag = concat (map (\<lambda>b. toUpperCase (byte_hex b))
                   (slice_list data 8 (8 + unat ((drop_bit 3 (data ! 6)) AND 0x1F) * 2)))"
    by simp
  then show ?thesis
    by (simp add: length_concat_const [where k = 2] length_toUpperCase length_byte_hex
          length_slice_list)
qed

lemma parseTagData_fields:
  assumes "parseTagData now data = Some tag"
  shows "count tag = 1 \<and> timestamp tag = now"
  using assms by (auto simp: parseTagData_def Let_def split: option.splits)

lemma handleNotification_state: "fst (handleNotification now val s) = s"
  by (simp add: handleNotification_def split: option.splits)

lemma handleNotification_TagRead:
  assumes "handleNotification now (Some data) s = (s', [TagRead cb tag])"
  shows "parseTagData now data = Some tag"
  using assms by (auto simp: handleNotification_def split: option.splits if_splits)

lemma setPower_command_eq:
  "setPower_command p =
     [0xA0, 0x05, 0x01, 0xB6, word_of_int p,
      word_of_nat (calculateChecksum [0xA0, 0x05, 0x01, 0xB6, word_of_int p])]"
  by (simp add: setPower_command_def slice_list_def Let_def)

lemma uint_power_byte:
  assumes "0 \<le> p" "p \<le> 30"
  shows "uint (word_of_int p :: byte) = p"
  using assms by (simp add: uint_word_of_int take_bit_int_eq_self)

lemma tagRead_update_twice:
  assumes "epc tag1 = epc tag2"
  shows "tagRead_update tag2 (tagRead_update tag1 Map.empty) =
           [epc tag1 \<mapsto> withId tag2 (count tag1 + 1)]"
  using assms by (simp add: tagRead_update_def withId_def)

text \<open>
  The service keeps no status field: what the commands test is the characteristic
  handle. A connection sequence that is rejected at \<open>startNotifications\<close> reports
  \<open>error\<close> and still leaves the handle assigned.
\<close>

lemma connect_rejected_late:
  "connect (StartNotificationsRejected d sv ch) (onConnectionStatusChange cb s) =
     (Inl TransportError,
      onConnectionStatusChange cb s\<lparr>device := Some d, server := Some sv, characteristic := Some ch\<rparr>,
      [StatusChanged cb Connecting, StatusChanged cb Error])"
  by (simp add: connect_def updateConnectionStatus_def onConnectionStatusChange_def Let_def)

section \<open>Parsing of inventory frames\<close>

text \<open>
  Claim C2, as the code has it. Take a notification buffer that holds the PC word (at
  least 8 bytes) and let \<open>L = ((data[6] >> 3) & 0x1F) * 2\<close>. \<open>parseTagData\<close> always
  returns a reading. If at least \<open>L\<close> bytes follow the PC word, the \<open>epc\<close> string has
  exactly \<open>2L\<close> characters. If fewer follow, nothing fails: the \<open>epc\<close> string is built from
  the bytes that are there, two characters each. For a buffer that the handler recognises
  as an inventory frame (command \<open>0x22\<close> or \<open>0x27\<close>) the reading, complete or truncated,
  is passed to the registered tag callback, and the service state is unchanged.
\<close>

theorem parseTagData_epc_length:
  assumes "8 \<le> length data"
  shows "\<exists>tag. parseTagData now data = Some tag \<and>
           (8 + unat ((drop_bit 3 (data ! 6)) AND 0x1F) * 2 \<le> length data \<longrightarrow>
              length (epc tag) = 2 * (unat ((drop_bit 3 (data ! 6)) AND 0x1F) * 2)) \<and>
           (length data < 8 + unat ((drop_bit 3 (data ! 6)) AND 0x1F) * 2 \<longrightarrow>
              length (epc tag) = 2 * (length data - 8)) \<and>
           (notification_command data = Some 0x22 \<or> notification_command data = Some 0x27 \<longrightarrow>
              handleNotification now (Some data) s =
                (s, case tagReadCallback s of None \<Rightarrow> [] | Some cb \<Rightarrow> [TagRead cb tag]))"
proof -
  from assms have "5 < length data" by simp
  from parseTagData_Some [OF this, of now]
  obtain tag where tag: "parseTagData now data = Some tag" by blast
  from length_epc_parse [OF assms tag]
  have len: "length (epc tag) =
               2 * min (unat ((drop_bit 3 (data ! 6)) AND 0x1F) * 2) (length data - 8)" .
  have a: "8 + unat ((drop_bit 3 (data ! 6)) AND 0x1F) * 2 \<le> length data \<longrightarrow>
              length (epc tag) = 2 * (unat ((drop_bit 3 (data ! 6)) AND 0x1F) * 2)"
    using len assms by (auto simp: min_def)
  have b: "length data < 8 + unat ((drop_bit 3 (data ! 6)) AND 0x1F) * 2 \<longrightarrow>
              length (epc tag) = 2 * (length data - 8)"
    using len assms by (auto simp: min_def)
  have c: "notification_command data = Some 0x22 \<or> notification_command data = Some 0x27 \<longrightarrow>
              handleNotification now (Some data) s =
                (s, case tagReadCallback s of None \<Rightarrow> [] | Some cb \<Rightarrow> [TagRead cb tag])"
    using tag by (auto simp: handleNotification_def split: option.splits)
  from tag a b c show ?thesis by blast
qed

text \<open>
  The theorem at two inventory frames: one whose PC word announces 2 EPC bytes and that
  carries them, and one whose PC word announces 4 EPC bytes and that carries 1.
\<close>

theorem parseTagData_epc_length_witness:
  "(\<exists>tag. parseTagData 1000 [0xA0, 0x0A, 0x01, 0x22, 0x00, 0x40, 0x08, 0x00, 0xAB, 0xCD, 0x00] = Some tag \<and>
      length (epc tag) = 4 \<and>
      handleNotification 1000 (Some [0xA0, 0x0A, 0x01, 0x22, 0x00, 0x40, 0x08, 0x00, 0xAB, 0xCD, 0x00])
        (onTagRead 7 chainwayR6Service) = (onTagRead 7 chainwayR6Service, [TagRead 7 tag])) \<and>
   (\<exists>tag. parseTagData 1000 [0xA0, 0x0A, 0x01, 0x22, 0x00, 0x40, 0x10, 0x00, 0xAB] = Some tag \<and>
      length (epc tag) = 2 \<and>
      handleNotification 1000 (Some [0xA0, 0x0A, 0x01, 0x22, 0x00, 0x40, 0x10, 0x00, 0xAB])
        (onTagRead 7 chainwayR6Service) = (onTagRead 7 chainwayR6Service, [TagRead 7 tag]))"
proof -
  have w1: "unat ((drop_bit 3 (0x08 :: byte)) AND 0x1F) * 2 = 2" by simp
  have w2: "unat ((drop_bit 3 (0x10 :: byte)) AND 0x1F) * 2 = 4" by simp
  have n1: "notification_command [0xA0, 0x0A, 0x01, 0x22, 0x00, 0x40, 0x08, 0x00, 0xAB, 0xCD, 0x00] = Some 0x22"
    by (simp add: notification_command_def at_index_def)
  have n2: "notification_command [0xA0, 0x0A, 0x01, 0x22, 0x00, 0x40, 0x10, 0x00, 0xAB] = Some 0x22"
    by (simp add: notification_command_def at_index_def)
  have cb: "tagReadCallback (onTagRead 7 chainwayR6Service) = Some 7"
    by (simp add: onTagRead_def)
  show ?thesis
    using parseTagData_epc_length
            [of "[0xA0, 0x0A, 0x01, 0x22, 0x00, 0x40, 0x08, 0x00, 0xAB, 0xCD, 0x00]" 1000
                "onTagRead 7 chainwayR6Service"]
          parseTagData_epc_length
            [of "[0xA0, 0x0A, 0x01, 0x22, 0x00, 0x40, 0x10, 0x00, 0xAB]" 1000
                "onTagRead 7 chainwayR6Service"]
          w1 w2 n1 n2 cb
    by simp
qed

text \<open>
  Claim C2 as stated fails: this inventory frame announces 4 EPC bytes
  (\<open>data[6] = 0x10\<close>) and carries one. \<open>parseTagData\<close> returns a reading with the
  2-character \<open>epc\<close> \<open>AB\<close>, and the handler passes it to the tag callback.
\<close>

theorem parseTagData_short_epc_counterexample:
  "unat ((drop_bit 3 (0x10 :: byte)) AND 0x1F) * 2 = 4 \<and>
   parseTagData 1000 [0xA0, 0x0A, 0x01, 0x22, 0x00, 0x40, 0x10, 0x00, 0xAB] =
     Some \<lparr>epc = ''AB'', rssi = ''64'', count = 1, tid = None, user = None,
           pc = Some ''1000'', ant = None, timestamp = 1000\<rparr> \<and>
   handleNotification 1000 (Some [0xA0, 0x0A, 0x01, 0x22, 0x00, 0x40, 0x10, 0x00, 0xAB])
       (onTagRead 7 chainwayR6Service) =
     (onTagRead 7 chainwayR6Service,
      [TagRead 7 \<lparr>epc = ''AB'', rssi = ''64'', count = 1, tid = None, user = None,
                  pc = Some ''1000'', ant = None, timestamp = 1000\<rparr>])"
  by code_simp

section \<open>Acceptance of inbound notifications\<close>

text \<open>
  Claim C1, as the code has it. Handling a notification never changes the service state.
  The tag callback is called exactly when the buffer is longer than 5 bytes, starts with
  \<open>0xA0\<close>, has \<open>0x22\<close> or \<open>0x27\<close> at index 3, and a tag callback is registered. The last
  byte of the buffer is not compared with the sum of the bytes before it, so a checksum
  mismatch alone does not make a buffer invalid.
\<close>

theorem handleNotification_acceptance:
  "handleNotification now None s = (s, []) \<and>
   fst (handleNotification now (Some data) s) = s \<and>
   (snd (handleNotification now (Some data) s) \<noteq> [] \<longleftrightarrow>
      5 < length data \<and> data ! 0 = 0xA0 \<and> (data ! 3 = 0x22 \<or> data ! 3 = 0x27) \<and>
      tagReadCallback s \<noteq> None)"
proof -
  have a: "handleNotification now None s = (s, [])"
    by (simp add: handleNotification_def)
  have b: "fst (handleNotification now (Some data) s) = s"
    by (rule handleNotification_state)
  have c: "snd (handleNotification now (Some data) s) \<noteq> [] \<longleftrightarrow>
      5 < length data \<and> data ! 0 = 0xA0 \<and> (data ! 3 = 0x22 \<or> data ! 3 = 0x27) \<and>
      tagReadCallback s \<noteq> None"
  proof (cases "5 < length data")
    case True
    from parseTagData_Some [OF True, of now]
    obtain tag where "parseTagData now data = Some tag" by blast
    with True show ?thesis
      by (auto simp: handleNotification_def notification_command_def at_index_def
            split: option.splits)
  next
    case False
    then show ?thesis
      by (simp add: handleNotification_def notification_command_def)
  qed
  from a b c show ?thesis by blast
qed

text \<open>
  The theorem at a buffer of 5 bytes with a wrong last byte, which is dropped, and at an
  inventory frame of 11 bytes with a wrong last byte, which is not.
\<close>

theorem handleNotification_acceptance_witness:
  "snd (handleNotification 1000 (Some [0xA0, 0x04, 0x01, 0x22, 0x00])
          (onTagRead 7 chainwayR6Service)) = [] \<and>
   snd (handleNotification 1000
          (Some [0xA0, 0x0A, 0x01, 0x22, 0x00, 0x40, 0x08, 0x00, 0xAB, 0xCD, 0x00])
          (onTagRead 7 chainwayR6Service)) \<noteq> []"
  using handleNotification_acceptance
          [of 1000 "onTagRead 7 chainwayR6Service" "[0xA0, 0x04, 0x01, 0x22, 0x00]"]
        handleNotification_acceptance
          [of 1000 "onTagRead 7 chainwayR6Service"
              "[0xA0, 0x0A, 0x01, 0x22, 0x00, 0x40, 0x08, 0x00, 0xAB, 0xCD, 0x00]"]
  by (simp add: onTagRead_def)

text \<open>
  Claim C1 as stated fails: the bytes before the last one of this inventory frame add up
  to \<open>0x8D\<close> modulo 256, its last byte is \<open>0x00\<close>, and the handler passes a reading to
  the tag callback.
\<close>

theorem handleNotification_bad_checksum_counterexample:
  "calculateChecksum (butlast [0xA0, 0x0A, 0x01, 0x22, 0x00, 0x40, 0x08, 0x00, 0xAB, 0xCD, 0x00]) = 0x8D \<and>
   last [0xA0, 0x0A, 0x01, 0x22, 0x00, 0x40, 0x08, 0x00, 0xAB, 0xCD, 0x00 :: byte] = 0x00 \<and>
   handleNotification 1000 (Some [0xA0, 0x0A, 0x01, 0x22, 0x00, 0x40, 0x08, 0x00, 0xAB, 0xCD, 0x00])
       (onTagRead 7 chainwayR6Service) =
     (onTagRead 7 chainwayR6Service,
      [TagRead 7 \<lparr>epc = ''ABCD'', rssi = ''64'', count = 1, tid = None, user = None,
                  pc = Some ''0800'', ant = None, timestamp = 1000\<rparr>])"
  by code_simp

section \<open>Command frames on the inbound path\<close>

text \<open>
  Claim C3, as the code has it. The service has no decoder that returns a payload; what
  it has is the acceptance check of the notification handler and the read of the command
  byte at index 3. Of the command frames only the 6-byte set-power frame passes that
  check: for a level \<open>p\<close> from 0 to 30 the command byte read is \<open>0xB6\<close> and the byte at
  index 4 is \<open>p\<close>. The 5-byte frames of start inventory, stop inventory and get power
  carry \<open>0x27\<close>, \<open>0x28\<close> and \<open>0xB7\<close> at index 3 and are rejected, because the check asks
  for more than 5 bytes.
\<close>

theorem command_frames_inbound:
  "(0 \<le> p \<and> p \<le> 30 \<longrightarrow>
      notification_command (setPower_command p) = Some 0xB6 \<and>
      uint (setPower_command p ! 4) = p \<and>
      length (setPower_command p) = 6) \<and>
   notification_command startInventory_command = None \<and> startInventory_command ! 3 = 0x27 \<and>
   notification_command stopInventory_command = None \<and> stopInventory_command ! 3 = 0x28 \<and>
   notification_command getPower_command = None \<and> getPower_command ! 3 = 0xB7"
  by (simp add: setPower_command_eq uint_power_byte notification_command_def at_index_def
        startInventory_command_def stopInventory_command_def getPower_command_def)

theorem command_frames_inbound_witness:
  "notification_command (setPower_command 20) = Some 0xB6 \<and>
   uint (setPower_command 20 ! 4) = 20 \<and> length (setPower_command 20) = 6"
  using command_frames_inbound [of 20] by simp

text \<open>
  Claim C3 as stated fails at start inventory: its frame does not pass the acceptance
  check, and the handler drops it.
\<close>

theorem start_frame_rejected_counterexample:
  "notification_command startInventory_command = None \<and>
   handleNotification 1000 (Some startInventory_command) (onTagRead 7 chainwayR6Service) =
     (onTagRead 7 chainwayR6Service, [])"
  by (simp add: notification_command_def startInventory_command_def handleNotification_def)

section \<open>Commands\<close>

text \<open>
  Claim C4. With a characteristic \<open>ch\<close> and an integer level \<open>p\<close> from 0 to 30,
  \<open>setPower(p)\<close> calls \<open>writeValue\<close> once, with the 6 bytes
  \<open>[0xA0, 0x05, 0x01, 0xB6, p, c]\<close>, where \<open>c\<close> is the sum of the first five bytes modulo
  256; it returns whether the write resolved and leaves the state as it was. For \<open>p\<close>
  below 0 or above 30 it returns \<open>false\<close> with no write and no change of state.
\<close>

theorem setPower_frame:
  "(0 \<le> p \<and> p \<le> 30 \<and> characteristic s = Some ch \<longrightarrow>
      (\<exists>c. setPower p write_ok s =
              (write_ok, s, [WriteValue ch [0xA0, 0x05, 0x01, 0xB6, word_of_int p, c]]) \<and>
           uint (word_of_int p :: byte) = p \<and>
           unat c = sum_list (map unat [0xA0, 0x05, 0x01, 0xB6, word_of_int p :: byte]) mod 256)) \<and>
   (p < 0 \<or> 30 < p \<longrightarrow> setPower p write_ok s = (False, s, []))"
proof -
  have valid: "\<exists>c. setPower p write_ok s =
              (write_ok, s, [WriteValue ch [0xA0, 0x05, 0x01, 0xB6, word_of_int p, c]]) \<and>
           uint (word_of_int p :: byte) = p \<and>
           unat c = sum_list (map unat [0xA0, 0x05, 0x01, 0xB6, word_of_int p :: byte]) mod 256"
    if r: "0 \<le> p" "p \<le> 30" and ch: "characteristic s = Some ch"
  proof -
    let ?c = "word_of_nat (calculateChecksum [0xA0, 0x05, 0x01, 0xB6, word_of_int p]) :: byte"
    have 1: "setPower p write_ok s =
               (write_ok, s, [WriteValue ch [0xA0, 0x05, 0x01, 0xB6, word_of_int p, ?c]])"
      using r ch by (simp add: setPower_def setPower_command_eq)
    have 2: "uint (word_of_int p :: byte) = p"
      using r by (rule uint_power_byte)
    have "calculateChecksum [0xA0, 0x05, 0x01, 0xB6, word_of_int p] < 256"
      by (simp add: calculateChecksum_sum_list)
    then have "unat ?c = calculateChecksum [0xA0, 0x05, 0x01, 0xB6, word_of_int p]"
      by (simp add: unat_of_nat)
    then have 3: "unat ?c =
                    sum_list (map unat [0xA0, 0x05, 0x01, 0xB6, word_of_int p :: byte]) mod 256"
      by (simp only: calculateChecksum_sum_list)
    from 1 2 3 show ?thesis by blast
  qed
  have invalid: "setPower p write_ok s = (False, s, [])" if "p < 0 \<or> 30 < p"
    using that by (auto simp: setPower_def split: option.splits)
  from valid invalid show ?thesis by blast
qed

text \<open>The theorem after a successful connection, at the levels 20 and 31.\<close>

theorem setPower_frame_witness:
  "setPower 20 True (fst (snd (connect (ConnectResolved 1 2 3) chainwayR6Service))) =
     (True, fst (snd (connect (ConnectResolved 1 2 3) chainwayR6Service)),
      [WriteValue 3 [0xA0, 0x05, 0x01, 0xB6, 0x14, 0x70]]) \<and>
   setPower 31 True (fst (snd (connect (ConnectResolved 1 2 3) chainwayR6Service))) =
     (False, fst (snd (connect (ConnectResolved 1 2 3) chainwayR6Service)), [])"
proof -
  let ?s = "fst (snd (connect (ConnectResolved 1 2 3) chainwayR6Service))"
  have ch: "characteristic ?s = Some 3"
    by (simp add: connect_def Let_def)
  from setPower_frame [of 20 ?s 3 True] ch
  obtain c :: byte where
    w: "setPower 20 True ?s =
          (True, ?s, [WriteValue 3 [0xA0, 0x05, 0x01, 0xB6, word_of_int 20, c]])"
    and c: "unat c = sum_list (map unat [0xA0, 0x05, 0x01, 0xB6, word_of_int 20 :: byte]) mod 256"
    by auto
  from c have "unat c = 112" by simp
  then have "c = 0x70" by (simp add: word_unat_eq_iff)
  with w have 1: "setPower 20 True ?s =
                    (True, ?s, [WriteValue 3 [0xA0, 0x05, 0x01, 0xB6, 0x14, 0x70]])"
    by simp
  from setPower_frame [of 31 ?s 3 True]
  have 2: "setPower 31 True ?s = (False, ?s, [])" by simp
  from 1 2 show ?thesis by blast
qed

text \<open>
  Claim C5. With a characteristic \<open>ch\<close>, \<open>startInventory()\<close> calls \<open>writeValue\<close> with
  exactly \<open>[0xA0, 0x04, 0x01, 0x27, 0xCC]\<close> and \<open>stopInventory()\<close> with exactly
  \<open>[0xA0, 0x04, 0x01, 0x28, 0xCD]\<close>. When the write resolves, the first sets
  \<open>isInventoryRunning\<close> to true and the second to false, and both return \<open>true\<close>. When
  the write is rejected, both return \<open>false\<close> and the state is as it was.
\<close>

theorem inventory_commands:
  assumes "characteristic s = Some ch"
  shows "startInventory True s =
           (True, s\<lparr>isInventoryRunning := True\<rparr>, [WriteValue ch [0xA0, 0x04, 0x01, 0x27, 0xCC]]) \<and>
         startInventory False s = (False, s, [WriteValue ch [0xA0, 0x04, 0x01, 0x27, 0xCC]]) \<and>
         stopInventory True s =
           (True, s\<lparr>isInventoryRunning := False\<rparr>, [WriteValue ch [0xA0, 0x04, 0x01, 0x28, 0xCD]]) \<and>
         stopInventory False s = (False, s, [WriteValue ch [0xA0, 0x04, 0x01, 0x28, 0xCD]])"
  using assms
  by (simp add: startInventory_def stopInventory_def startInventory_command_def
        stopInventory_command_def)

theorem inventory_commands_witness:
  "startInventory True
      \<lparr>device = Some 1, server = Some 2, characteristic = Some 3, tagReadCallback = None,
       connectionStatusCallback = None, isInventoryRunning = False\<rparr> =
     (True,
      \<lparr>device = Some 1, server = Some 2, characteristic = Some 3, tagReadCallback = None,
       connectionStatusCallback = None, isInventoryRunning = True\<rparr>,
      [WriteValue 3 [0xA0, 0x04, 0x01, 0x27, 0xCC]]) \<and>
   stopInventory False
      \<lparr>device = Some 1, server = Some 2, characteristic = Some 3, tagReadCallback = None,
       connectionStatusCallback = None, isInventoryRunning = False\<rparr> =
     (False,
      \<lparr>device = Some 1, server = Some 2, characteristic = Some 3, tagReadCallback = None,
       connectionStatusCallback = None, isInventoryRunning = False\<rparr>,
      [WriteValue 3 [0xA0, 0x04, 0x01, 0x28, 0xCD]])"
  using inventory_commands
    [of "\<lparr>device = Some 1, server = Some 2, characteristic = Some 3, tagReadCallback = None,
         connectionStatusCallback = None, isInventoryRunning = False\<rparr>" 3]
  by simp

text \<open>
  Claim C6, as the code has it. The service keeps no connection status; what
  \<open>startInventory()\<close> tests is the characteristic handle. In every state without a
  characteristic it returns \<open>false\<close>, calls no \<open>writeValue\<close> and leaves the state,
  \<open>isInventoryRunning\<close> included, as it was, whether or not a write would have resolved.
\<close>

theorem startInventory_not_connected:
  assumes "characteristic s = None"
  shows "startInventory write_ok s = (False, s, [])"
  using assms by (simp add: startInventory_def)

text \<open>
  The theorem in the initial state, after a connection sequence rejected at
  \<open>getCharacteristic\<close>, and after a disconnect reported by the transport while an
  inventory was running.
\<close>

theorem startInventory_not_connected_witness:
  "startInventory True chainwayR6Service = (False, chainwayR6Service, []) \<and>
   startInventory True (fst (snd (connect (GetCharacteristicRejected 1 2) chainwayR6Service))) =
     (False, fst (snd (connect (GetCharacteristicRejected 1 2) chainwayR6Service)), []) \<and>
   startInventory True
      (fst (handleDisconnect
         \<lparr>device = Some 1, server = Some 2, characteristic = Some 3, tagReadCallback = None,
          connectionStatusCallback = Some 9, isInventoryRunning = True\<rparr>)) =
     (False,
      fst (handleDisconnect
         \<lparr>device = Some 1, server = Some 2, characteristic = Some 3, tagReadCallback = None,
          connectionStatusCallback = Some 9, isInventoryRunning = True\<rparr>), [])"
proof -
  have 1: "characteristic chainwayR6Service = None"
    by (simp add: chainwayR6Service_def)
  have 2: "characteristic (fst (snd (connect (GetCharacteristicRejected 1 2) chainwayR6Service))) = None"
    by (simp add: connect_def chainwayR6Service_def Let_def)
  have 3: "characteristic (fst (handleDisconnect
         \<lparr>device = Some 1, server = Some 2, characteristic = Some 3, tagReadCallback = None,
          connectionStatusCallback = Some 9, isInventoryRunning = True\<rparr>)) = None"
    by (simp add: handleDisconnect_def cleanup_def Let_def)
  from startInventory_not_connected [OF 1, of True]
       startInventory_not_connected [OF 2, of True]
       startInventory_not_connected [OF 3, of True]
  show ?thesis by blast
qed

text \<open>
  Claim C6 as stated fails where the status is not \<open>connected\<close> and a characteristic is
  held: a connection sequence rejected at \<open>startNotifications\<close> reports \<open>connecting\<close> and
  then \<open>error\<close> and leaves the handle assigned; \<open>startInventory()\<close> then writes the start
  frame, returns \<open>true\<close> and sets \<open>isInventoryRunning\<close>.
\<close>

theorem startInventory_after_failed_connect_counterexample:
  "connect (StartNotificationsRejected 1 2 3) (onConnectionStatusChange 9 chainwayR6Service) =
     (Inl TransportError,
      \<lparr>device = Some 1, server = Some 2, characteristic = Some 3, tagReadCallback = None,
       connectionStatusCallback = Some 9, isInventoryRunning = False\<rparr>,
      [StatusChanged 9 Connecting, StatusChanged 9 Error]) \<and>
   startInventory True
      \<lparr>device = Some 1, server = Some 2, characteristic = Some 3, tagReadCallback = None,
       connectionStatusCallback = Some 9, isInventoryRunning = False\<rparr> =
     (True,
      \<lparr>device = Some 1, server = Some 2, characteristic = Some 3, tagReadCallback = None,
       connectionStatusCallback = Some 9, isInventoryRunning = True\<rparr>,
      [WriteValue 3 [0xA0, 0x04, 0x01, 0x27, 0xCC]])"
  by (simp add: connect_def onConnectionStatusChange_def chainwayR6Service_def
        updateConnectionStatus_def startInventory_def startInventory_command_def Let_def)

section \<open>Disconnection\<close>

text \<open>
  Claim C7. When the transport reports a disconnect while an inventory is running and a
  status callback is registered, \<open>handleDisconnect\<close> leaves the state that \<open>cleanup\<close>
  gives: \<open>isInventoryRunning\<close> false and no device, server or characteristic. Its only
  effect is one call of the status callback with \<open>disconnected\<close>; no command is written.
  \<open>disconnect()\<close> ends in the same state, and its effects are those of
  \<open>handleDisconnect\<close> after the call of \<open>gatt.disconnect()\<close> it makes when the device is
  still connected.
\<close>

theorem handleDisconnect_resets:
  assumes "isInventoryRunning s" and "connectionStatusCallback s = Some cb"
  shows "handleDisconnect s = (cleanup s, [StatusChanged cb Disconnected]) \<and>
         \<not> isInventoryRunning (cleanup s) \<and>
         device (cleanup s) = None \<and> server (cleanup s) = None \<and>
         characteristic (cleanup s) = None \<and>
         fst (disconnect gatt_connected s) = cleanup s \<and>
         snd (disconnect gatt_connected s) =
           (case device s of
              Some d \<Rightarrow> if gatt_connected then [GattDisconnect d] else []
            | None \<Rightarrow> []) @ snd (handleDisconnect s)"
  using assms
  by (simp add: handleDisconnect_def disconnect_def cleanup_def updateConnectionStatus_def Let_def)

theorem handleDisconnect_resets_witness:
  "handleDisconnect
      \<lparr>device = Some 1, server = Some 2, characteristic = Some 3, tagReadCallback = None,
       connectionStatusCallback = Some 9, isInventoryRunning = True\<rparr> =
     (\<lparr>device = None, server = None, characteristic = None, tagReadCallback = None,
       connectionStatusCallback = Some 9, isInventoryRunning = False\<rparr>,
      [StatusChanged 9 Disconnected])"
  using handleDisconnect_resets
    [of "\<lparr>device = Some 1, server = Some 2, characteristic = Some 3, tagReadCallback = None,
         connectionStatusCallback = Some 9, isInventoryRunning = True\<rparr>" 9]
  by (simp add: cleanup_def)

section \<open>Rendering of the PC word\<close>

text \<open>
  Claim C8 at an inventory frame whose PC word is \<open>0x10A5\<close>: the \<open>epc\<close> is rendered in
  upper case, the \<open>pc\<close> field is \<open>10a5\<close>, in lower case, where the claim asks for
  \<open>10A5\<close>.
\<close>

theorem parseTagData_pc_lowercase:
  "parseTagData 1000 [0xA0, 0x0C, 0x01, 0x22, 0x00, 0x40, 0x10, 0xA5, 0xDE, 0xAD, 0xBE, 0xEF, 0xFC] =
     Some \<lparr>epc = ''DEADBEEF'', rssi = ''64'', count = 1, tid = None, user = None,
           pc = Some ''10a5'', ant = None, timestamp = 1000\<rparr> \<and>
   toUpperCase ''10a5'' = ''10A5''"
  by code_simp

section \<open>The tag collection\<close>

text \<open>
  Claim C9. Two notifications, handled at the times \<open>t1\<close> and then \<open>t2\<close>, each pass a
  reading to the tag callback, and the two readings have the same \<open>epc\<close>. Applying the
  component's update for the first and then for the second to the empty collection gives
  a collection with exactly one key, that \<open>epc\<close>; its entry has \<open>count\<close> 2 and the
  \<open>timestamp\<close> \<open>t2\<close> of the second notification.
\<close>

theorem same_epc_twice:
  assumes "handleNotification t1 (Some d1) s = (s1, [TagRead cb1 tag1])"
      and "handleNotification t2 (Some d2) s1 = (s2, [TagRead cb2 tag2])"
      and "epc tag1 = epc tag2"
  shows "dom (tagRead_update tag2 (tagRead_update tag1 Map.empty)) = {epc tag1} \<and>
         (\<exists>entry. tagRead_update tag2 (tagRead_update tag1 Map.empty) (epc tag1) = Some entry \<and>
            epc entry = epc tag1 \<and> count entry = 2 \<and> timestamp entry = t2)"
proof -
  from assms(1) have "parseTagData t1 d1 = Some tag1" by (rule handleNotification_TagRead)
  then have c1: "count tag1 = 1" by (simp add: parseTagData_fields)
  from assms(2) have "parseTagData t2 d2 = Some tag2" by (rule handleNotification_TagRead)
  then have t2: "timestamp tag2 = t2" by (simp add: parseTagData_fields)
  from c1 t2 assms(3) show ?thesis
    by (simp add: tagRead_update_twice withId_def)
qed

text \<open>
  The theorem at two inventory frames with the EPC \<open>ABCD\<close>, handled at the times 1000 and
  2000.
\<close>

theorem same_epc_twice_witness:
  "dom (tagRead_update
          \<lparr>epc = ''ABCD'', rssi = ''65'', count = 1, tid = None, user = None,
           pc = Some ''0800'', ant = None, timestamp = 2000\<rparr>
          (tagRead_update
             \<lparr>epc = ''ABCD'', rssi = ''64'', count = 1, tid = None, user = None,
              pc = Some ''0800'', ant = None, timestamp = 1000\<rparr> Map.empty)) = {''ABCD''} \<and>
   (\<exists>entry. tagRead_update
          \<lparr>epc = ''ABCD'', rssi = ''65'', count = 1, tid = None, user = None,
           pc = Some ''0800'', ant = None, timestamp = 2000\<rparr>
          (tagRead_update
             \<lparr>epc = ''ABCD'', rssi = ''64'', count = 1, tid = None, user = None,
              pc = Some ''0800'', ant = None, timestamp = 1000\<rparr> Map.empty) ''ABCD'' = Some entry \<and>
      epc entry = ''ABCD'' \<and> count entry = 2 \<and> timestamp entry = 2000)"
proof -
  have n1: "handleNotification 1000
              (Some [0xA0, 0x0A, 0x01, 0x22, 0x00, 0x40, 0x08, 0x00, 0xAB, 0xCD, 0x8D])
              (onTagRead 7 chainwayR6Service) =
            (onTagRead 7 chainwayR6Service,
             [TagRead 7 \<lparr>epc = ''ABCD'', rssi = ''64'', count = 1, tid = None, user = None,
                         pc = Some ''0800'', ant = None, timestamp = 1000\<rparr>])"
    by code_simp
  have n2: "handleNotification 2000
              (Some [0xA0, 0x0A, 0x01, 0x22, 0x00, 0x41, 0x08, 0x00, 0xAB, 0xCD, 0x8E])
              (onTagRead 7 chainwayR6Service) =
            (onTagRead 7 chainwayR6Service,
             [TagRead 7 \<lparr>epc = ''ABCD'', rssi = ''65'', count = 1, tid = None, user = None,
                         pc = Some ''0800'', ant = None, timestamp = 2000\<rparr>])"
    by code_simp
  from same_epc_twice [OF n1 n2] show ?thesis by simp
qed

section \<open>The invariant of the inventory flag\<close>



















lemma execute_append: "execute (as @ bs) x = execute bs (execute as x)"
  by (induction as arbitrary: x) simp_all






end
